theory Spec2Isabelle
  imports Main
begin

section \<open>Python values, errors and namespaces\<close>

text \<open>
  The module \<^verbatim>\<open>pyfreesurfer/info.py\<close> is a sequence of top-level assignments.
  Its right-hand sides are integer, string and boolean literals, list displays, an empty
  dict display, references to names bound earlier, and one call of \<^verbatim>\<open>str.format\<close>.
  Values are dynamically typed, so they live in one datatype; every way an evaluation can
  raise is a value of \<open>pyerror\<close>.
\<close>

datatype pyval =
    PInt int
  | PBool bool
  | PStr string
  | PList "pyval list"
  | PDict "(pyval \<times> pyval) list"

datatype pyerror =
    NameError string
  | AttributeError
  | IndexError
  | ValueError
  | Unsupported

type_synonym namespace = "string \<rightharpoonup> pyval"

section \<open>Rendering and parsing integers\<close>

text \<open>\<^verbatim>\<open>str(n)\<close> for an integer: decimal digits, most significant first, a leading
  minus sign for a negative number. CPython from version 3.11 on refuses, with
  \<open>ValueError\<close>, to render an integer of more than 4300 digits unless the limit is lifted;
  that limit is not part of this function, and the properties of the module below rest on
  it only at the module's own values.\<close>

definition digit_char :: "nat \<Rightarrow> char" where
  "digit_char d = ''0123456789'' ! (d mod 10)"

fun str_of_nat :: "nat \<Rightarrow> string" where
  "str_of_nat n =
     (if n < 10 then [digit_char n] else str_of_nat (n div 10) @ [digit_char (n mod 10)])"

declare str_of_nat.simps [simp del]

definition str_of_int :: "int \<Rightarrow> string" where
  "str_of_int i = (if i < 0 then CHR ''-'' # str_of_nat (nat (- i)) else str_of_nat (nat i))"

definition is_digit :: "char \<Rightarrow> bool" where
  "is_digit c = (c \<in> set ''0123456789'')"

definition digit_val :: "char \<Rightarrow> nat" where
  "digit_val c = of_char c - 48"

definition is_decimal :: "string \<Rightarrow> bool" where
  "is_decimal s = (s \<noteq> [] \<and> list_all is_digit s)"

definition nat_of_digits :: "string \<Rightarrow> nat" where
  "nat_of_digits s = foldl (\<lambda>acc c. 10 * acc + digit_val c) 0 s"

text \<open>\<^verbatim>\<open>int(s)\<close> on a string: an optional sign followed by decimal digits. Surrounding
  whitespace and digit-group underscores, which Python also accepts, are outside this
  model and are reported as \<open>ValueError\<close>.\<close>

definition py_int :: "string \<Rightarrow> pyerror + int" where
  "py_int s =
     (case s of
        [] \<Rightarrow> Inl ValueError
      | c # ds \<Rightarrow>
          if c = CHR ''-'' then
            (if is_decimal ds then Inr (- int (nat_of_digits ds)) else Inl ValueError)
          else if c = CHR ''+'' then
            (if is_decimal ds then Inr (int (nat_of_digits ds)) else Inl ValueError)
          else if is_decimal s then Inr (int (nat_of_digits s))
          else Inl ValueError)"

text \<open>\<^verbatim>\<open>s.split(sep)\<close> with a one-character separator.\<close>

fun split_on :: "char \<Rightarrow> string \<Rightarrow> string list" where
  "split_on sep [] = [[]]"
| "split_on sep (c # cs) =
     (if c = sep then [] # split_on sep cs
      else (case split_on sep cs of
              [] \<Rightarrow> [[c]]
            | p # ps \<Rightarrow> (c # p) # ps))"

text \<open>\<^verbatim>\<open>sep.join(parts)\<close>.\<close>

fun join :: "string \<Rightarrow> string list \<Rightarrow> string" where
  "join sep [] = []"
| "join sep [p] = p"
| "join sep (p # q # ps) = p @ sep @ join sep (q # ps)"

section \<open>String formatting\<close>

text \<open>\<^verbatim>\<open>str(v)\<close>, as \<^verbatim>\<open>format\<close> applies it to an argument with an empty format
  specification. The rendering of lists and dicts (which goes through \<^verbatim>\<open>repr\<close>) is
  outside the model.\<close>

fun py_str :: "pyval \<Rightarrow> pyerror + string" where
  "py_str (PInt i) = Inr (str_of_int i)"
| "py_str (PBool b) = Inr (if b then ''True'' else ''False'')"
| "py_str (PStr s) = Inr s"
| "py_str (PList vs) = Inl Unsupported"
| "py_str (PDict kvs) = Inl Unsupported"

text \<open>A replacement field \<^verbatim>\<open>{N}\<close> selects the positional argument \<open>N\<close>; an index past
  the arguments raises \<open>IndexError\<close>. Automatic numbering, keyword names, attribute and
  item access, conversions and format specifications are outside the model.\<close>

definition field_value :: "string \<Rightarrow> pyval list \<Rightarrow> pyerror + string" where
  "field_value fld args =
     (if is_decimal fld then
        (if nat_of_digits fld < length args then py_str (args ! nat_of_digits fld)
         else Inl IndexError)
      else Inl Unsupported)"

text \<open>The scanner of \<^verbatim>\<open>str.format\<close>: literal text is copied, \<^verbatim>\<open>{{\<close> and \<^verbatim>\<open>}}\<close>
  are escapes, a lone \<^verbatim>\<open>}\<close> or an unclosed \<^verbatim>\<open>{\<close> raises \<open>ValueError\<close>. The second
  argument is the replacement field being read, if any.\<close>

fun format_scan :: "string \<Rightarrow> string option \<Rightarrow> pyval list \<Rightarrow> pyerror + string" where
  "format_scan [] None args = Inr []"
| "format_scan [] (Some fld) args = Inl ValueError"
| "format_scan (c # cs) (Some fld) args =
     (if c = CHR ''}'' then
        (case field_value fld args of
           Inl e \<Rightarrow> Inl e
         | Inr s \<Rightarrow> (case format_scan cs None args of
                       Inl e \<Rightarrow> Inl e
                     | Inr r \<Rightarrow> Inr (s @ r)))
      else format_scan cs (Some (fld @ [c])) args)"
| "format_scan (c # cs) None args =
     (if c = CHR ''{'' then
        (case cs of
           [] \<Rightarrow> Inl ValueError
         | d # ds \<Rightarrow>
             if d = CHR ''{'' then
               (case format_scan ds None args of
                  Inl e \<Rightarrow> Inl e
                | Inr r \<Rightarrow> Inr (CHR ''{'' # r))
             else format_scan cs (Some []) args)
      else if c = CHR ''}'' then
        (case cs of
           [] \<Rightarrow> Inl ValueError
         | d # ds \<Rightarrow>
             if d = CHR ''}'' then
               (case format_scan ds None args of
                  Inl e \<Rightarrow> Inl e
                | Inr r \<Rightarrow> Inr (CHR ''}'' # r))
             else Inl ValueError)
      else
        (case format_scan cs None args of
           Inl e \<Rightarrow> Inl e
         | Inr r \<Rightarrow> Inr (c # r)))"

definition py_format :: "string \<Rightarrow> pyval list \<Rightarrow> pyerror + string" where
  "py_format fmt args = format_scan fmt None args"

section \<open>Expressions and statements\<close>

datatype expr =
    EInt int
  | EStr string
  | EBool bool
  | EList "expr list"
  | EDict "(expr \<times> expr) list"
  | EName string
  | EFormat expr "expr list"

datatype stmt = Assign string expr

text \<open>The elements of a display and the arguments of a call are evaluated left to right;
  the first one that raises ends the evaluation.\<close>

fun sequence_sum :: "('e + 'a) list \<Rightarrow> 'e + 'a list" where
  "sequence_sum [] = Inr []"
| "sequence_sum (x # xs) =
     (case x of
        Inl e \<Rightarrow> Inl e
      | Inr v \<Rightarrow> (case sequence_sum xs of
                    Inl e \<Rightarrow> Inl e
                  | Inr vs \<Rightarrow> Inr (v # vs)))"

text \<open>A name that is not bound raises \<open>NameError\<close>. In a call \<^verbatim>\<open>r.format(...)\<close> the
  receiver is evaluated first and the method is looked up on it, which raises
  \<open>AttributeError\<close> unless it is a string; only then are the arguments evaluated. A
  non-empty dict display is outside the model.\<close>

fun eval :: "namespace \<Rightarrow> expr \<Rightarrow> pyerror + pyval" where
  "eval ns (EInt i) = Inr (PInt i)"
| "eval ns (EStr s) = Inr (PStr s)"
| "eval ns (EBool b) = Inr (PBool b)"
| "eval ns (EList es) =
     (case sequence_sum (map (eval ns) es) of
        Inl e \<Rightarrow> Inl e
      | Inr vs \<Rightarrow> Inr (PList vs))"
| "eval ns (EDict []) = Inr (PDict [])"
| "eval ns (EDict (kv # kvs)) = Inl Unsupported"
| "eval ns (EName x) =
     (case ns x of
        None \<Rightarrow> Inl (NameError x)
      | Some v \<Rightarrow> Inr v)"
| "eval ns (EFormat r es) =
     (case eval ns r of
        Inl e \<Rightarrow> Inl e
      | Inr (PStr fmt) \<Rightarrow>
          (case sequence_sum (map (eval ns) es) of
             Inl e \<Rightarrow> Inl e
           | Inr vs \<Rightarrow>
               (case py_format fmt vs of
                  Inl e \<Rightarrow> Inl e
                | Inr s \<Rightarrow> Inr (PStr s)))
      | Inr rv \<Rightarrow> Inl AttributeError)"

fun exec_stmt :: "stmt \<Rightarrow> namespace \<Rightarrow> pyerror + namespace" where
  "exec_stmt (Assign x e) ns =
     (case eval ns e of
        Inl err \<Rightarrow> Inl err
      | Inr v \<Rightarrow> Inr (ns(x \<mapsto> v)))"

fun exec_block :: "stmt list \<Rightarrow> namespace \<Rightarrow> pyerror + namespace" where
  "exec_block [] ns = Inr ns"
| "exec_block (s # ss) ns =
     (case exec_stmt s ns of
        Inl err \<Rightarrow> Inl err
      | Inr ns' \<Rightarrow> exec_block ss ns')"

fun assigned_name :: "stmt \<Rightarrow> string" where
  "assigned_name (Assign x e) = x"

section \<open>The module \<^verbatim>\<open>pyfreesurfer.info\<close>\<close>

text \<open>The two triple-quoted literals of the module; each starts with the line break that
  follows the opening quotes.\<close>

definition description_text :: string where
  "description_text =
      ''\<newline>'' @
      ''[pyFreeSurfer]\<newline>'' @
      ''This package provides common scripts:\<newline>'' @
      ''\<newline>'' @
      ''* pyfreesurfer_reconall: FreeSurfer cortical and subcortical segmentation.\<newline>'' @
      ''* pyfreesurfer_datacheck: check FreeSurfer 'reconall' produced data integrity.\<newline>'' @
      ''* pyfreesurfer_conversion:  convert FreeSurfer volume, mesh , annotations\<newline>'' @
      ''  to the native space. The produced meshes will also be aligned across\<newline>'' @
      ''  subjects.\<newline>'' @
      ''* pyfreesurfer_qualitycheck: check FreeSurfer 'reconall' produced data quality.\<newline>'' @
      ''* pyfreesurfer_stats: summarize the FreeSurfer 'reconall' individual\<newline>'' @
      ''  statistics.\<newline>'' @
      ''* pyfreesurfer_textures: build texture arrays aligned across subjects.\<newline>''"

definition long_description_text :: string where
  "long_description_text =
      ''\<newline>'' @
      ''======================\<newline>'' @
      ''pyFreeSurfer\<newline>'' @
      ''======================\<newline>'' @
      ''\<newline>'' @
      ''Python wrappers for FreeSurfer: wrap the FreeSurfer software and simplify\<newline>'' @
      ''scripting calls. Such calls can be performed through the use of a\<newline>'' @
      ''dedicated function of the package.\<newline>''"

text \<open>The list display bound to \<^verbatim>\<open>CLASSIFIERS\<close> at its first assignment.\<close>

definition classifiers_display :: "expr list" where
  "classifiers_display =
     [EStr ''Development Status :: 5 - Production/Stable'',
      EStr ''Environment :: Console'',
      EStr ''Environment :: X11 Applications :: Qt'',
      EStr ''Operating System :: OS Independent'',
      EStr ''Programming Language :: Python'',
      EStr ''Topic :: Scientific/Engineering'',
      EStr ''Topic :: Utilities'']"

text \<open>The statements of the module, in source order.\<close>

definition info_module :: "stmt list" where
  "info_module =
     [Assign ''version_major'' (EInt 1),
      Assign ''version_minor'' (EInt 1),
      Assign ''version_micro'' (EInt 0),
      Assign ''__version__''
        (EFormat (EStr ''{0}.{1}.{2}'')
           [EName ''version_major'', EName ''version_minor'', EName ''version_micro'']),
      Assign ''DEFAULT_FREESURFER_PATH'' (EStr ''/i2bm/local/freesurfer/SetUpFreeSurfer.sh''),
      Assign ''DEFAULT_FSL_PATH'' (EStr ''/etc/fsl/5.0/fsl.sh''),
      Assign ''DEFAULT_WORKBENCH_PATH'' (EStr ''/usr/bin''),
      Assign ''DEFAULT_TEMPLATE_SYM_PATH''
        (EStr ''/i2bm/local/freesurfer/subjects/fsaverage_sym''),
      Assign ''FREESURFER_RELEASE'' (EStr ''5.3.0''),
      Assign ''CLASSIFIERS'' (EList classifiers_display),
      Assign ''description'' (EStr description_text),
      Assign ''long_description'' (EStr long_description_text),
      Assign ''NAME'' (EStr ''pyFreeSurfer''),
      Assign ''ORGANISATION'' (EStr ''CEA''),
      Assign ''MAINTAINER'' (EStr ''Antoine Grigis''),
      Assign ''MAINTAINER_EMAIL'' (EStr ''antoine.grigis@cea.fr''),
      Assign ''DESCRIPTION'' (EName ''description''),
      Assign ''LONG_DESCRIPTION'' (EName ''long_description''),
      Assign ''URL'' (EStr ''https://github.com/neurospin/pyfreesurfer''),
      Assign ''DOWNLOAD_URL'' (EStr ''https://github.com/neurospin/pyfreesurfer''),
      Assign ''LICENSE'' (EStr ''CeCILL-B''),
      Assign ''CLASSIFIERS'' (EName ''CLASSIFIERS''),
      Assign ''AUTHOR'' (EStr ''pyFreeSurfer developers''),
      Assign ''AUTHOR_EMAIL'' (EStr ''antoine.grigis@cea.fr''),
      Assign ''PLATFORMS'' (EStr ''OS Independent''),
      Assign ''ISRELEASE'' (EBool True),
      Assign ''VERSION'' (EName ''__version__''),
      Assign ''PROVIDES'' (EList [EStr ''pyfreesurfer'']),
      Assign ''REQUIRES''
        (EList [EStr ''numpy>=1.6.1'', EStr ''nibabel>=1.1.0'', EStr ''matplotlib>=1.3.1'']),
      Assign ''EXTRA_REQUIRES'' (EDict [])]"

text \<open>Evaluating the module in a namespace \<open>ns0\<close> of names bound beforehand (the
  globals an importer provides, such as \<^verbatim>\<open>__name__\<close> and \<^verbatim>\<open>__file__\<close>).\<close>

definition run_module :: "namespace \<Rightarrow> pyerror + namespace" where
  "run_module ns0 = exec_block info_module ns0"

text \<open>The names the module binds, and the value each has when evaluation ends.\<close>

definition module_names :: "string list" where
  "module_names = remdups (map assigned_name info_module)"

definition module_values :: "stmt list \<Rightarrow> namespace \<Rightarrow> pyerror + (string \<times> pyval option) list" where
  "module_values ss ns0 =
     (case exec_block ss ns0 of
        Inl err \<Rightarrow> Inl err
      | Inr ns \<Rightarrow> Inr (map (\<lambda>x. (x, ns x)) (remdups (map assigned_name ss))))"

text \<open>The namespace after the first \<open>k\<close> statements, and the value a name has there;
  \<open>module_const\<close> reads a name when the whole module has been evaluated. A failed
  evaluation binds nothing.\<close>

definition const_after :: "nat \<Rightarrow> namespace \<Rightarrow> string \<Rightarrow> pyval option" where
  "const_after k ns0 x =
     (case exec_block (take k info_module) ns0 of
        Inl err \<Rightarrow> None
      | Inr ns \<Rightarrow> ns x)"

definition module_const :: "namespace \<Rightarrow> string \<Rightarrow> pyval option" where
  "module_const ns0 x =
     (case run_module ns0 of
        Inl err \<Rightarrow> None
      | Inr ns \<Rightarrow> ns x)"

section \<open>Properties of constants\<close>

text \<open>A constant that is bound to a string, or to a list, with a given property.\<close>

fun holds_str :: "(string \<Rightarrow> bool) \<Rightarrow> pyval option \<Rightarrow> bool" where
  "holds_str P (Some (PStr s)) = P s"
| "holds_str P v = False"

fun holds_list :: "(pyval list \<Rightarrow> bool) \<Rightarrow> pyval option \<Rightarrow> bool" where
  "holds_list P (Some (PList vs)) = P vs"
| "holds_list P v = False"

definition non_empty :: "'a list \<Rightarrow> bool" where
  "non_empty xs = (xs \<noteq> [])"

text \<open>Dot-separated decimal integers: every part between two dots is a non-empty run of
  digits. The form \<^verbatim>\<open>X.Y.Z\<close> has exactly three parts.\<close>

definition is_dotted_version :: "string \<Rightarrow> bool" where
  "is_dotted_version s = list_all is_decimal (split_on CHR ''.'' s)"

definition is_xyz_version :: "string \<Rightarrow> bool" where
  "is_xyz_version s =
     (case split_on CHR ''.'' s of
        [x, y, z] \<Rightarrow> is_decimal x \<and> is_decimal y \<and> is_decimal z
      | _ \<Rightarrow> False)"

text \<open>Splitting a version string on the dot and reading each part with \<^verbatim>\<open>int\<close>.\<close>

definition parse_version :: "string \<Rightarrow> pyerror + int list" where
  "parse_version s = sequence_sum (map py_int (split_on CHR ''.'' s))"

text \<open>A version constraint on a library: a name (letters, digits, underscore, hyphen),
  then a comparison operator, then a dotted version. The two-character operators are tried
  before their one-character prefixes.\<close>

definition is_name_char :: "char \<Rightarrow> bool" where
  "is_name_char c =
     (c \<in> set ''abcdefghijklmnopqrstuvwxyzABCDEFGHIJKLMNOPQRSTUVWXYZ0123456789_-'')"

definition comparison_operators :: "string list" where
  "comparison_operators = [''>='', ''<='', ''=='', ''!='', ''~='', ''>'', ''<'']"

fun strip_prefix :: "string \<Rightarrow> string \<Rightarrow> string option" where
  "strip_prefix [] s = Some s"
| "strip_prefix (p # ps) [] = None"
| "strip_prefix (p # ps) (c # cs) = (if p = c then strip_prefix ps cs else None)"

fun strip_operator :: "string list \<Rightarrow> string \<Rightarrow> string option" where
  "strip_operator [] s = None"
| "strip_operator (opr # oprs) s =
     (case strip_prefix opr s of
        Some rest \<Rightarrow> Some rest
      | None \<Rightarrow> strip_operator oprs s)"

definition is_constraint :: "string \<Rightarrow> bool" where
  "is_constraint s =
     (takeWhile is_name_char s \<noteq> [] \<and>
      (case strip_operator comparison_operators (dropWhile is_name_char s) of
         None \<Rightarrow> False
       | Some ver \<Rightarrow> is_dotted_version ver))"

fun is_constraint_value :: "pyval \<Rightarrow> bool" where
  "is_constraint_value (PStr s) = (s \<noteq> [] \<and> is_constraint s)"
| "is_constraint_value v = False"

text \<open>A flat scalar is a number or a string; \<^verbatim>\<open>bool\<close> is a subclass of \<^verbatim>\<open>int\<close> in
  Python, so \<^verbatim>\<open>True\<close> is a number. A flat constant is a scalar or a list of scalars.\<close>

fun is_scalar :: "pyval \<Rightarrow> bool" where
  "is_scalar (PInt i) = True"
| "is_scalar (PBool b) = True"
| "is_scalar (PStr s) = True"
| "is_scalar (PList vs) = False"
| "is_scalar (PDict kvs) = False"

fun is_flat :: "pyval \<Rightarrow> bool" where
  "is_flat (PList vs) = list_all is_scalar vs"
| "is_flat v = is_scalar v"

fun flat_constant :: "pyval option \<Rightarrow> bool" where
  "flat_constant None = False"
| "flat_constant (Some v) = is_flat v"

section \<open>Decimal rendering and parsing\<close>
lemma below_ten_cases:
  "k < (10::nat) \<Longrightarrow>
     k = 0 \<or> k = 1 \<or> k = 2 \<or> k = 3 \<or> k = 4 \<or> k = 5 \<or> k = 6 \<or> k = 7 \<or> k = 8 \<or> k = 9"
  by arith

lemma digit_char_is_digit: "is_digit (digit_char d)"
  using below_ten_cases [of "d mod 10"]
  by (auto simp add: digit_char_def is_digit_def)

lemma digit_val_digit_char: "digit_val (digit_char d) = d mod 10"
  using below_ten_cases [of "d mod 10"]
  by (auto simp add: digit_char_def digit_val_def)

lemma str_of_nat_digits: "list_all is_digit (str_of_nat n)"
proof (induction n rule: str_of_nat.induct)
  case (1 n)
  show ?case
  proof (cases "n < 10")
    case True
    then show ?thesis by (simp add: str_of_nat.simps [of n] digit_char_is_digit)
  next
    case False
    with 1 show ?thesis by (simp add: str_of_nat.simps [of n] digit_char_is_digit)
  qed
qed

lemma str_of_nat_non_empty: "str_of_nat n \<noteq> []"
  by (simp add: str_of_nat.simps [of n])

lemma str_of_nat_decimal: "is_decimal (str_of_nat n)"
  by (simp add: is_decimal_def str_of_nat_digits str_of_nat_non_empty)

lemma nat_of_digits_snoc: "nat_of_digits (s @ [c]) = 10 * nat_of_digits s + digit_val c"
  by (simp add: nat_of_digits_def)

lemma nat_of_digits_str_of_nat: "nat_of_digits (str_of_nat n) = n"
proof (induction n rule: str_of_nat.induct)
  case (1 n)
  show ?case
  proof (cases "n < 10")
    case True
    then have "nat_of_digits (str_of_nat n) = digit_val (digit_char n)"
      by (simp add: str_of_nat.simps [of n] nat_of_digits_def)
    with True show ?thesis by (simp add: digit_val_digit_char)
  next
    case False
    then have "nat_of_digits (str_of_nat n) = 10 * nat_of_digits (str_of_nat (n div 10)) + n mod 10"
      by (simp add: str_of_nat.simps [of n] nat_of_digits_snoc digit_val_digit_char)
    with False 1 show ?thesis by simp
  qed
qed

lemma is_digit_not_sign: "is_digit c \<Longrightarrow> c \<noteq> CHR ''-'' \<and> c \<noteq> CHR ''+'' \<and> c \<noteq> CHR ''.''"
  by (auto simp add: is_digit_def)

lemma str_of_nat_hd: "\<exists>c cs. str_of_nat n = c # cs \<and> is_digit c"
  using str_of_nat_digits [of n] str_of_nat_non_empty [of n]
  by (cases "str_of_nat n") simp_all

lemma py_int_str_of_nat: "py_int (str_of_nat n) = Inr (int n)"
proof -
  obtain c cs where eq: "str_of_nat n = c # cs" and d: "is_digit c"
    using str_of_nat_hd by blast
  have dec: "is_decimal (c # cs)" using str_of_nat_decimal [of n] eq by simp
  have val: "nat_of_digits (c # cs) = n" using nat_of_digits_str_of_nat [of n] eq by simp
  show ?thesis
    using is_digit_not_sign [OF d] dec val by (simp add: py_int_def eq)
qed

lemma py_int_str_of_int: "py_int (str_of_int i) = Inr i"
proof (cases "i < 0")
  case True
  then show ?thesis
    by (simp add: str_of_int_def py_int_def str_of_nat_decimal nat_of_digits_str_of_nat)
next
  case False
  then show ?thesis by (simp add: str_of_int_def py_int_str_of_nat)
qed

lemma str_of_int_no_dot: "CHR ''.'' \<notin> set (str_of_int i)"
proof -
  have "CHR ''.'' \<notin> set (str_of_nat n)" for n
    using str_of_nat_digits [of n] is_digit_not_sign by (auto simp add: list_all_iff)
  then show ?thesis by (simp add: str_of_int_def)
qed

lemma split_on_no_sep: "sep \<notin> set s \<Longrightarrow> split_on sep s = [s]"
  by (induction s) auto

lemma split_on_append: "sep \<notin> set s \<Longrightarrow> split_on sep (s @ sep # t) = s # split_on sep t"
  by (induction s) auto

lemma parse_version_join:
  "xs \<noteq> [] \<Longrightarrow> parse_version (join ''.'' (map str_of_int xs)) = Inr xs"
proof (induction xs rule: induct_list012)
  case 1
  then show ?case by simp
next
  case (2 x)
  then show ?case
    by (simp add: parse_version_def split_on_no_sep str_of_int_no_dot py_int_str_of_int)
next
  case (3 x y zs)
  then show ?case
    by (simp add: parse_version_def split_on_append str_of_int_no_dot py_int_str_of_int)
qed

subsection \<open>Evaluating the module\<close>

lemma format_xyz:
  "py_format ''{0}.{1}.{2}'' [PInt a, PInt b, PInt c] =
     Inr (join ''.'' (map str_of_int [a, b, c]))"
  by (simp add: py_format_def field_value_def is_decimal_def is_digit_def nat_of_digits_def
      digit_val_def)

lemma str_of_int_small: "str_of_int 1 = ''1''" "str_of_int 0 = ''0''"
  by (simp_all add: str_of_int_def str_of_nat.simps digit_char_def)

lemma run_module_result:
  "run_module ns0 =
     Inr (ns0(''version_major'' \<mapsto> PInt 1,
              ''version_minor'' \<mapsto> PInt 1,
              ''version_micro'' \<mapsto> PInt 0,
              ''__version__'' \<mapsto> PStr ''1.1.0'',
              ''DEFAULT_FREESURFER_PATH'' \<mapsto> PStr ''/i2bm/local/freesurfer/SetUpFreeSurfer.sh'',
              ''DEFAULT_FSL_PATH'' \<mapsto> PStr ''/etc/fsl/5.0/fsl.sh'',
              ''DEFAULT_WORKBENCH_PATH'' \<mapsto> PStr ''/usr/bin'',
              ''DEFAULT_TEMPLATE_SYM_PATH'' \<mapsto>
                PStr ''/i2bm/local/freesurfer/subjects/fsaverage_sym'',
              ''FREESURFER_RELEASE'' \<mapsto> PStr ''5.3.0'',
              ''description'' \<mapsto> PStr description_text,
              ''long_description'' \<mapsto> PStr long_description_text,
              ''NAME'' \<mapsto> PStr ''pyFreeSurfer'',
              ''ORGANISATION'' \<mapsto> PStr ''CEA'',
              ''MAINTAINER'' \<mapsto> PStr ''Antoine Grigis'',
              ''MAINTAINER_EMAIL'' \<mapsto> PStr ''antoine.grigis@cea.fr'',
              ''DESCRIPTION'' \<mapsto> PStr description_text,
              ''LONG_DESCRIPTION'' \<mapsto> PStr long_description_text,
              ''URL'' \<mapsto> PStr ''https://github.com/neurospin/pyfreesurfer'',
              ''DOWNLOAD_URL'' \<mapsto> PStr ''https://github.com/neurospin/pyfreesurfer'',
              ''LICENSE'' \<mapsto> PStr ''CeCILL-B'',
              ''CLASSIFIERS'' \<mapsto>
                PList
                  [PStr ''Development Status :: 5 - Production/Stable'',
                   PStr ''Environment :: Console'',
                   PStr ''Environment :: X11 Applications :: Qt'',
                   PStr ''Operating System :: OS Independent'',
                   PStr ''Programming Language :: Python'',
                   PStr ''Topic :: Scientific/Engineering'',
                   PStr ''Topic :: Utilities''],
              ''AUTHOR'' \<mapsto> PStr ''pyFreeSurfer developers'',
              ''AUTHOR_EMAIL'' \<mapsto> PStr ''antoine.grigis@cea.fr'',
              ''PLATFORMS'' \<mapsto> PStr ''OS Independent'',
              ''ISRELEASE'' \<mapsto> PBool True,
              ''VERSION'' \<mapsto> PStr ''1.1.0'',
              ''PROVIDES'' \<mapsto> PList [PStr ''pyfreesurfer''],
              ''REQUIRES'' \<mapsto>
                PList [PStr ''numpy>=1.6.1'', PStr ''nibabel>=1.1.0'', PStr ''matplotlib>=1.3.1''],
              ''EXTRA_REQUIRES'' \<mapsto> PDict []))"
  by (simp add: run_module_def info_module_def classifiers_display_def format_xyz
      str_of_int_small)

lemma module_names_eq:
  "module_names =
     [''version_major'', ''version_minor'', ''version_micro'', ''__version__'',
      ''DEFAULT_FREESURFER_PATH'', ''DEFAULT_FSL_PATH'', ''DEFAULT_WORKBENCH_PATH'',
      ''DEFAULT_TEMPLATE_SYM_PATH'', ''FREESURFER_RELEASE'', ''description'',
      ''long_description'', ''NAME'', ''ORGANISATION'', ''MAINTAINER'', ''MAINTAINER_EMAIL'',
      ''DESCRIPTION'', ''LONG_DESCRIPTION'', ''URL'', ''DOWNLOAD_URL'', ''LICENSE'',
      ''CLASSIFIERS'', ''AUTHOR'', ''AUTHOR_EMAIL'', ''PLATFORMS'', ''ISRELEASE'', ''VERSION'',
      ''PROVIDES'', ''REQUIRES'', ''EXTRA_REQUIRES'']"
  by (simp add: module_names_def info_module_def)

lemmas module_const_eval = module_const_def run_module_result

lemma const_after_classifiers:
  "const_after 10 ns0 ''CLASSIFIERS'' =
     Some (PList
       [PStr ''Development Status :: 5 - Production/Stable'',
        PStr ''Environment :: Console'',
        PStr ''Environment :: X11 Applications :: Qt'',
        PStr ''Operating System :: OS Independent'',
        PStr ''Programming Language :: Python'',
        PStr ''Topic :: Scientific/Engineering'',
        PStr ''Topic :: Utilities''])"
  by (simp add: const_after_def info_module_def classifiers_display_def format_xyz)

text \<open>The model can tell two starting namespaces apart: a module that reads a name it
  has not bound gets the value the importer gave it.\<close>

lemma module_values_can_differ:
  "module_values [Assign ''x'' (EName ''__name__'')] [''__name__'' \<mapsto> PStr ''a''] \<noteq>
   module_values [Assign ''x'' (EName ''__name__'')] [''__name__'' \<mapsto> PStr ''b'']"
  by (simp add: module_values_def)

section \<open>The claims\<close>

text \<open>
  C1. The composed version string \<^verbatim>\<open>__version__\<close> matches the pattern of three
  dot-separated integers: it is bound to a string whose split on the dot has exactly three
  parts, each a non-empty run of decimal digits. This holds whatever the namespace the
  module starts from.
\<close>

theorem version_is_xyz: "holds_str is_xyz_version (module_const ns0 ''__version__'')"
  by (simp add: module_const_eval is_xyz_version_def is_decimal_def is_digit_def)

text \<open>
  C2. Each of the four path constants \<^verbatim>\<open>DEFAULT_FREESURFER_PATH\<close>,
  \<^verbatim>\<open>DEFAULT_FSL_PATH\<close>, \<^verbatim>\<open>DEFAULT_WORKBENCH_PATH\<close> and
  \<^verbatim>\<open>DEFAULT_TEMPLATE_SYM_PATH\<close> is bound to a string, and that string is not empty.
\<close>

theorem path_constants_non_empty:
  "list_all (\<lambda>x. holds_str non_empty (module_const ns0 x))
     [''DEFAULT_FREESURFER_PATH'', ''DEFAULT_FSL_PATH'', ''DEFAULT_WORKBENCH_PATH'',
      ''DEFAULT_TEMPLATE_SYM_PATH'']"
  by (simp add: module_const_eval non_empty_def)

text \<open>
  C3. The declared dependencies \<^verbatim>\<open>REQUIRES\<close> are bound to a list, and the list is
  not empty.
\<close>

theorem requires_non_empty: "holds_list non_empty (module_const ns0 ''REQUIRES'')"
  by (simp add: module_const_eval non_empty_def)

text \<open>
  C4, as stated: every constant the module binds is a flat scalar (a number or a string) or
  a list of such scalars. It fails for \<^verbatim>\<open>EXTRA_REQUIRES\<close>, which the module binds to
  an empty dict.
\<close>

theorem extra_requires_not_flat:
  "List.member module_names ''EXTRA_REQUIRES'' \<and>
   \<not> flat_constant (module_const Map.empty ''EXTRA_REQUIRES'')"
  by (simp add: module_names_eq module_const_eval)

text \<open>
  C4, amended: every constant the module binds other than \<^verbatim>\<open>EXTRA_REQUIRES\<close> is an
  integer, a boolean or a string, or a list of these; \<^verbatim>\<open>EXTRA_REQUIRES\<close> is an empty
  dict.
\<close>

theorem constants_flat_except_extra_requires:
  "list_all (\<lambda>x. flat_constant (module_const ns0 x))
     (removeAll ''EXTRA_REQUIRES'' module_names) \<and>
   module_const ns0 ''EXTRA_REQUIRES'' = Some (PDict [])"
  by (simp add: module_names_eq module_const_eval)

text \<open>
  C5. Every element of \<^verbatim>\<open>REQUIRES\<close> is a version constraint: a non-empty string made
  of a library name, a comparison operator and a version of dot-separated integers.
\<close>

theorem requires_are_constraints:
  "holds_list (list_all is_constraint_value) (module_const ns0 ''REQUIRES'')"
  by (simp add: module_const_eval is_constraint_def is_name_char_def comparison_operators_def
      is_dotted_version_def is_decimal_def is_digit_def)

text \<open>
  C6. \<^verbatim>\<open>FREESURFER_RELEASE\<close> is bound to a non-empty string of dot-separated
  integers.
\<close>

theorem freesurfer_release_is_version:
  "holds_str (\<lambda>s. non_empty s \<and> is_dotted_version s)
     (module_const ns0 ''FREESURFER_RELEASE'')"
  by (simp add: module_const_eval non_empty_def is_dotted_version_def is_decimal_def
      is_digit_def)

text \<open>
  C7. Evaluating the module raises no error, whatever the namespace it starts from: the
  evaluation ends with a namespace. In particular the format call that composes
  \<^verbatim>\<open>__version__\<close> from the three components the module binds (1, 1 and 0) returns a
  string: the fourth statement is that call, and once it has run \<^verbatim>\<open>__version__\<close> is
  bound.
\<close>

theorem module_evaluation_succeeds:
  "(\<exists>ns. run_module ns0 = Inr ns) \<and>
   info_module ! 3 =
     Assign ''__version__''
       (EFormat (EStr ''{0}.{1}.{2}'')
          [EName ''version_major'', EName ''version_minor'', EName ''version_micro'']) \<and>
   py_format ''{0}.{1}.{2}'' [PInt 1, PInt 1, PInt 0] = Inr ''1.1.0'' \<and>
   const_after 4 ns0 ''__version__'' = Some (PStr ''1.1.0'')"
proof -
  have whole: "\<exists>ns. run_module ns0 = Inr ns"
    by (simp add: run_module_result)
  have fourth: "info_module ! 3 =
      Assign ''__version__''
        (EFormat (EStr ''{0}.{1}.{2}'')
           [EName ''version_major'', EName ''version_minor'', EName ''version_micro''])"
    by (simp add: info_module_def)
  have call: "py_format ''{0}.{1}.{2}'' [PInt 1, PInt 1, PInt 0] = Inr ''1.1.0''"
    by (simp add: format_xyz str_of_int_small)
  have bound: "const_after 4 ns0 ''__version__'' = Some (PStr ''1.1.0'')"
    by (simp add: const_after_def info_module_def call)
  from whole fourth call bound show ?thesis
    by (simp only: simp_thms)
qed

text \<open>
  C8. Evaluation of the module is deterministic: two evaluations, from any two starting
  namespaces, both succeed and give every name the module binds the same value. No value
  depends on what was bound before the module ran.
\<close>

theorem module_values_independent:
  "module_values info_module ns1 = module_values info_module ns2"
  unfolding module_values_def module_names_def [symmetric] run_module_def [symmetric]
  by (simp add: run_module_result module_names_eq)

text \<open>
  C9. Each alias equals its source: \<^verbatim>\<open>VERSION\<close> is \<^verbatim>\<open>__version__\<close>,
  \<^verbatim>\<open>DESCRIPTION\<close> is \<^verbatim>\<open>description\<close>, \<^verbatim>\<open>LONG_DESCRIPTION\<close> is
  \<^verbatim>\<open>long_description\<close>, and \<^verbatim>\<open>CLASSIFIERS\<close> at the end of the module is the
  list it was bound to by its first assignment (the tenth statement), whose display has
  seven strings.
\<close>

theorem aliases_equal_sources:
  "module_const ns0 ''VERSION'' = module_const ns0 ''__version__'' \<and>
   module_const ns0 ''__version__'' = Some (PStr ''1.1.0'') \<and>
   module_const ns0 ''DESCRIPTION'' = module_const ns0 ''description'' \<and>
   module_const ns0 ''description'' = Some (PStr description_text) \<and>
   module_const ns0 ''LONG_DESCRIPTION'' = module_const ns0 ''long_description'' \<and>
   module_const ns0 ''long_description'' = Some (PStr long_description_text) \<and>
   info_module ! 9 = Assign ''CLASSIFIERS'' (EList classifiers_display) \<and>
   length classifiers_display = 7 \<and>
   module_const ns0 ''CLASSIFIERS'' = const_after 10 ns0 ''CLASSIFIERS'' \<and>
   map_option Inr (const_after 10 ns0 ''CLASSIFIERS'') =
     Some (eval ns0 (EList classifiers_display))"
proof -
  have disp: "eval ns0 (EList classifiers_display) =
      Inr (PList
        [PStr ''Development Status :: 5 - Production/Stable'',
         PStr ''Environment :: Console'',
         PStr ''Environment :: X11 Applications :: Qt'',
         PStr ''Operating System :: OS Independent'',
         PStr ''Programming Language :: Python'',
         PStr ''Topic :: Scientific/Engineering'',
         PStr ''Topic :: Utilities''])"
    by (simp add: classifiers_display_def)
  have stmt10: "info_module ! 9 = Assign ''CLASSIFIERS'' (EList classifiers_display)"
    by (simp add: info_module_def)
  have seven: "length classifiers_display = 7"
    by (simp add: classifiers_display_def)
  have final: "module_const ns0 ''CLASSIFIERS'' = const_after 10 ns0 ''CLASSIFIERS''"
    by (simp add: module_const_eval const_after_classifiers)
  have aliases:
    "module_const ns0 ''VERSION'' = Some (PStr ''1.1.0'')"
    "module_const ns0 ''__version__'' = Some (PStr ''1.1.0'')"
    "module_const ns0 ''DESCRIPTION'' = Some (PStr description_text)"
    "module_const ns0 ''description'' = Some (PStr description_text)"
    "module_const ns0 ''LONG_DESCRIPTION'' = Some (PStr long_description_text)"
    "module_const ns0 ''long_description'' = Some (PStr long_description_text)"
    by (simp_all add: module_const_eval)
  show ?thesis
    by (simp add: aliases stmt10 seven final const_after_classifiers disp del: eval.simps)
qed

text \<open>
  C10. The three version components are 1, 1 and 0; \<^verbatim>\<open>__version__\<close> is their decimal
  renderings joined by dots; splitting that string on the dot and reading each part as an
  integer gives 1, 1 and 0 back.
\<close>

theorem version_round_trip:
  "map (module_const ns0) [''version_major'', ''version_minor'', ''version_micro''] =
     map (\<lambda>i. Some (PInt i)) [1, 1, 0] \<and>
   holds_str (\<lambda>v. v = join ''.'' (map str_of_int [1, 1, 0]) \<and> parse_version v = Inr [1, 1, 0])
     (module_const ns0 ''__version__'')"
proof -
  have parts:
    "map (module_const ns0) [''version_major'', ''version_minor'', ''version_micro''] =
       map (\<lambda>i. Some (PInt i)) [1, 1, 0]"
    by (simp add: module_const_eval)
  have composed:
    "module_const ns0 ''__version__'' = Some (PStr (join ''.'' (map str_of_int [1, 1, 0])))"
    by (simp add: module_const_eval str_of_int_small)
  have recovered: "parse_version (join ''.'' (map str_of_int [1, 1, 0])) = Inr [1, 1, 0]"
    by (rule parse_version_join) simp
  show ?thesis
    unfolding composed using parts recovered by simp
qed

end
